theory Spec2Isabelle
  imports Complex_Main "HOL-Library.Monad_Syntax"
begin

section \<open>Errors and configuration\<close>

text \<open>
  The agent of \<^verbatim>\<open>src/demo3/tdmpc2.py\<close> (class \<^verbatim>\<open>TDMPC2\<close>). Tensor entries and
  Python floats are modelled as real numbers: rounding is not part of the model. Only the
  outputs of the reward and value heads, and what is computed from them (value estimates,
  which the planner guards with \<^verbatim>\<open>nan_to_num\<close>, and TD targets), may also be NaN or infinite. Sizes and counts of the configuration are natural numbers. A leading
  underscore of a Python name is dropped (\<^verbatim>\<open>_get_discount\<close> is \<open>get_discount\<close>).
\<close>

datatype py_error = ZeroDivisionError

record config =
  horizon :: nat
  num_samples :: nat
  num_pi_trajs :: nat
  num_elites :: nat
  iterations :: nat
  action_dim :: nat
  num_envs :: nat
  temperature :: real
  min_std :: real
  max_std :: real
  discount_min :: real
  discount_max :: real
  discount_denom :: real
  discount_hardcoded :: real
  multitask :: bool
  mpc :: bool
  episode_length :: int
  episode_lengths :: "int list"

section \<open>Discount scheduler\<close>

text \<open>
  \<^verbatim>\<open>min(max(x, lo), hi)\<close>, which is also what \<^verbatim>\<open>Tensor.clamp(lo, hi)\<close> computes on an entry.
\<close>

definition clamp :: "real \<Rightarrow> real \<Rightarrow> real \<Rightarrow> real" where
  "clamp x lo hi = min (max x lo) hi"

text \<open>
  \<^verbatim>\<open>_get_discount\<close>. Both divisions are Python's true division, which raises
  \<^verbatim>\<open>ZeroDivisionError\<close> on a zero divisor.
\<close>

definition get_discount :: "config \<Rightarrow> int \<Rightarrow> py_error + real" where
  "get_discount c ep_len =
     (if discount_hardcoded c \<noteq> 0 then Inr (discount_hardcoded c)
      else if discount_denom c = 0 then Inl ZeroDivisionError
      else (let frac = real_of_int ep_len / discount_denom c in
            if frac = 0 then Inl ZeroDivisionError
            else Inr (min (max ((frac - 1) / frac) (discount_min c)) (discount_max c))))"

text \<open>The discount heuristic in the words of the specification.\<close>

definition spec_discount :: "config \<Rightarrow> int \<Rightarrow> real" where
  "spec_discount c ep_len =
     (let frac = real_of_int ep_len / discount_denom c in
      clamp ((frac - 1) / frac) (discount_min c) (discount_max c))"


section \<open>Agent state and construction\<close>

text \<open>
  \<^verbatim>\<open>self.discount\<close> is a Python float in single-task mode and a tensor with one entry per
  task in multi-task mode.
\<close>

datatype discount = Scalar real | PerTask "real list"

record agent =
  cfg :: config
  discount :: discount
  prev_mean :: "real list list list"

fun discounts :: "config \<Rightarrow> int list \<Rightarrow> py_error + real list" where
  "discounts c [] = Inr []"
| "discounts c (l # ls) =
     (case get_discount c l of
        Inl e \<Rightarrow> Inl e
      | Inr d \<Rightarrow> (case discounts c ls of Inl e \<Rightarrow> Inl e | Inr ds \<Rightarrow> Inr (d # ds)))"

text \<open>
  \<^verbatim>\<open>__init__\<close>, restricted to the fields the planner and the targets read: the iteration
  heuristic for large action spaces, the discount, and the zero warm-start buffer of shape
  \<^verbatim>\<open>(num_envs, horizon, action_dim)\<close>.
\<close>

definition init :: "config \<Rightarrow> py_error + agent" where
  "init c0 =
     (let c = c0\<lparr>iterations := iterations c0 + 2 * (if 20 \<le> action_dim c0 then 1 else 0)\<rparr>;
          d = (if multitask c
               then (case discounts c (episode_lengths c) of
                       Inl e \<Rightarrow> Inl e | Inr ds \<Rightarrow> Inr (PerTask ds))
               else (case get_discount c (episode_length c) of
                       Inl e \<Rightarrow> Inl e | Inr x \<Rightarrow> Inr (Scalar x)))
      in case d of
           Inl e \<Rightarrow> Inl e
         | Inr dv \<Rightarrow> Inr \<lparr>cfg = c, discount = dv,
             prev_mean = replicate (num_envs c)
                           (replicate (horizon c) (replicate (action_dim c) 0))\<rparr>)"

section \<open>Values that need not be finite\<close>

text \<open>
  The planner passes the value estimate through \<^verbatim>\<open>nan_to_num\<close>, so the entry type of a
  value tensor has to allow the non-numbers of IEEE arithmetic. \<open>fval\<close> adds them to the
  reals; addition and scaling follow the IEEE rules for infinities and NaN and are exact on
  finite values. The value estimator and the TD target below are written once, for any entry
  type with \<open>0\<close>, \<open>+\<close> and scaling by a real: read at type \<open>real\<close> they are the code in
  exact arithmetic, read at type \<open>fval\<close> they also carry NaN and the infinities.
\<close>

datatype fval = Fin real | PInf | NInf | NaN

instantiation fval :: "{zero, plus, scaleR}"
begin

definition zero_fval :: fval where
  "zero_fval = Fin 0"

fun plus_fval :: "fval \<Rightarrow> fval \<Rightarrow> fval" where
  "plus_fval (Fin a) (Fin b) = Fin (a + b)"
| "plus_fval NaN _ = NaN"
| "plus_fval _ NaN = NaN"
| "plus_fval PInf NInf = NaN"
| "plus_fval NInf PInf = NaN"
| "plus_fval PInf _ = PInf"
| "plus_fval _ PInf = PInf"
| "plus_fval NInf _ = NInf"
| "plus_fval _ NInf = NInf"

fun scaleR_fval :: "real \<Rightarrow> fval \<Rightarrow> fval" where
  "scaleR_fval d (Fin a) = Fin (d * a)"
| "scaleR_fval d NaN = NaN"
| "scaleR_fval d PInf = (if 0 < d then PInf else if d < 0 then NInf else NaN)"
| "scaleR_fval d NInf = (if 0 < d then NInf else if d < 0 then PInf else NaN)"

instance ..

end

text \<open>The largest finite single-precision value, \<^verbatim>\<open>(2 - 2**-23) * 2**127\<close>.\<close>

definition float32_max :: real where
  "float32_max = 2 ^ 128 - 2 ^ 104"

text \<open>
  \<^verbatim>\<open>Tensor.nan_to_num(nan, posinf=None, neginf=None)\<close> on one entry of a single-precision
  tensor: NaN becomes \<open>nan\<close>; with \<^verbatim>\<open>posinf\<close> and \<^verbatim>\<open>neginf\<close> left at \<^verbatim>\<open>None\<close>, positive
  infinity becomes the greatest finite value of the dtype and negative infinity the least.
\<close>

fun nan_to_num :: "real \<Rightarrow> fval \<Rightarrow> real" where
  "nan_to_num nan (Fin x) = x"
| "nan_to_num nan NaN = nan"
| "nan_to_num nan PInf = float32_max"
| "nan_to_num nan NInf = - float32_max"

section \<open>The world model and the random stream\<close>

text \<open>
  The world model (\<^verbatim>\<open>common.world_model\<close>), \<^verbatim>\<open>common.math\<close> and the random number generator
  are not part of the file under verification; they are parameters. The heads act on one
  latent state at a time, a batch being handled row by row. An action is the list of its
  \<^verbatim>\<open>action_dim\<close> components. Outputs whose shape the source relies on (policy actions,
  action masks, normal draws) are given as functions of the component index and tabulated
  to \<^verbatim>\<open>action_dim\<close> entries, so they have the expected shape by construction. The policy
  head is stochastic: its extra argument is the noise of that call. Of its output tuple only
  entries 0 (mean) and 1 (sample) are read.
\<close>

type_synonym task = "nat option"

datatype return_type = RT_min | RT_avg

record ('o, 'z, 'l, 'e, 'v) world_model =
  encode :: "'o \<Rightarrow> task \<Rightarrow> 'z"
  next_latent :: "'z \<Rightarrow> real list \<Rightarrow> task \<Rightarrow> 'z"
  reward :: "'z \<Rightarrow> real list \<Rightarrow> task \<Rightarrow> 'l"
  Q_value :: "'z \<Rightarrow> real list \<Rightarrow> task \<Rightarrow> return_type \<Rightarrow> bool \<Rightarrow> 'v"
  pi_net :: "'z \<Rightarrow> task \<Rightarrow> 'e \<Rightarrow> (nat \<Rightarrow> real) \<times> (nat \<Rightarrow> real)"
  two_hot_inv :: "'l \<Rightarrow> 'v"
  action_masks :: "(nat \<Rightarrow> real) list"

text \<open>
  The draws of one call, indexed by where they are used: the policy noise of the seeding
  rollout (row, trajectory, timestep), the normal draws of the sampling step (iteration,
  row, timestep, sample, component), the policy noise of the bootstrap (iteration, row,
  candidate), the index returned by \<^verbatim>\<open>math.gumbel_softmax_sample\<close> (row, scores), the
  exploration noise (component) and the policy noise of \<^verbatim>\<open>act\<close> without planning (row).
\<close>

record 'e draws =
  pi_eps :: "nat \<Rightarrow> nat \<Rightarrow> nat \<Rightarrow> 'e"
  randn :: "nat \<Rightarrow> nat \<Rightarrow> nat \<Rightarrow> nat \<Rightarrow> nat \<Rightarrow> real"
  boot_eps :: "nat \<Rightarrow> nat \<Rightarrow> nat \<Rightarrow> 'e"
  gumbel_softmax_sample :: "nat \<Rightarrow> real list \<Rightarrow> nat"
  randn_noise :: "nat \<Rightarrow> real"
  act_eps :: "nat \<Rightarrow> 'e"

definition tabulate :: "nat \<Rightarrow> (nat \<Rightarrow> 'a) \<Rightarrow> 'a list" where
  "tabulate n f = map f [0..<n]"

definition pi_mean :: "config \<Rightarrow> ('o, 'z, 'l, 'e, 'v) world_model \<Rightarrow> 'z \<Rightarrow> task \<Rightarrow> 'e \<Rightarrow> real list" where
  "pi_mean c wm z task e = tabulate (action_dim c) (fst (pi_net wm z task e))"

definition pi_sample :: "config \<Rightarrow> ('o, 'z, 'l, 'e, 'v) world_model \<Rightarrow> 'z \<Rightarrow> task \<Rightarrow> 'e \<Rightarrow> real list" where
  "pi_sample c wm z task e = tabulate (action_dim c) (snd (pi_net wm z task e))"

section \<open>Value estimator and TD target\<close>

text \<open>
  In the functions below \<open>None\<close> stands for a call that raises instead of returning.

  The discount of a task in \<^verbatim>\<open>_estimate_value\<close> (\<^verbatim>\<open>discount_update\<close>):
  \<^verbatim>\<open>self.discount[torch.tensor(task)]\<close> in multi-task mode, \<^verbatim>\<open>self.discount\<close> otherwise. Indexing fails
  without a task, with a task index out of range, and on a float. The constructor stores a
  tensor exactly in multi-task mode; the remaining combination is rejected.
\<close>

definition task_discount :: "agent \<Rightarrow> task \<Rightarrow> real option" where
  "task_discount ag task =
     (if multitask (cfg ag)
      then (case discount ag of
              PerTask ds \<Rightarrow>
                (case task of
                   None \<Rightarrow> None
                 | Some i \<Rightarrow> if i < length ds then Some (ds ! i) else None)
            | Scalar d \<Rightarrow> None)
      else (case discount ag of Scalar d \<Rightarrow> Some d | PerTask ds \<Rightarrow> None))"

text \<open>
  The loop of \<^verbatim>\<open>_estimate_value\<close>: the state \<^verbatim>\<open>(z, G, discount)\<close> after \<open>t\<close> iterations.
  \<open>acts ! t\<close> is \<^verbatim>\<open>actions[:, t]\<close>.
\<close>

fun estimate_steps ::
  "agent \<Rightarrow> ('o, 'z, 'l, 'e, 'v::{zero,plus,scaleR}) world_model \<Rightarrow> 'z \<Rightarrow> real list list \<Rightarrow> task
     \<Rightarrow> nat \<Rightarrow> ('z \<times> 'v \<times> real) option" where
  "estimate_steps ag wm z acts task 0 = Some (z, 0, 1)"
| "estimate_steps ag wm z acts task (Suc t) = do {
     (z', G, disc) \<leftarrow> estimate_steps ag wm z acts task t;
     a \<leftarrow> (if t < length acts then Some (acts ! t) else None);
     let rew = two_hot_inv wm (reward wm z' a task);
     let z'' = next_latent wm z' a task;
     let G' = G + disc *\<^sub>R rew;
     du \<leftarrow> task_discount ag task;
     Some (z'', G', disc * du)
   }"

definition estimate_value ::
  "agent \<Rightarrow> ('o, 'z, 'l, 'e, 'v::{zero,plus,scaleR}) world_model \<Rightarrow> 'e \<Rightarrow> 'z \<Rightarrow> real list list \<Rightarrow> task
     \<Rightarrow> 'v option" where
  "estimate_value ag wm e z acts task = do {
     (z', G, disc) \<leftarrow> estimate_steps ag wm z acts task (horizon (cfg ag));
     Some (G + disc *\<^sub>R Q_value wm z' (pi_sample (cfg ag) wm z' task e) task RT_avg False)
   }"

text \<open>
  Two tensors combined entry by entry after broadcasting along the batch dimension: the
  row counts agree, or one of the tensors has a single row.
\<close>

definition broadcast2 :: "('a \<Rightarrow> 'b \<Rightarrow> 'c) \<Rightarrow> 'a list \<Rightarrow> 'b list \<Rightarrow> 'c list option" where
  "broadcast2 f xs ys =
     (if length xs = length ys then Some (map2 f xs ys)
      else if length xs = 1 then Some (map (f (xs ! 0)) ys)
      else if length ys = 1 then Some (map (\<lambda>x. f x (ys ! 0)) xs)
      else None)"

text \<open>
  The discount of \<^verbatim>\<open>_td_target\<close>, as its rows along the batch dimension. In single-task mode
  it is the float \<^verbatim>\<open>self.discount\<close>. In multi-task mode it is
  \<^verbatim>\<open>self.discount[task].unsqueeze(-1)\<close>: with a task index the discount of that task, one
  row, and an index out of range raises; with \<^verbatim>\<open>task = None\<close> the index adds an axis and the
  discount is the whole tensor, of shape \<^verbatim>\<open>(1, n_tasks, 1)\<close>, one row per task. Indexing a
  float raises; the constructor stores a tensor exactly in multi-task mode, and the remaining
  combination is rejected.
\<close>

definition td_discount :: "agent \<Rightarrow> task \<Rightarrow> real list option" where
  "td_discount ag task =
     (if multitask (cfg ag)
      then (case discount ag of
              PerTask ds \<Rightarrow>
                (case task of
                   None \<Rightarrow> Some ds
                 | Some i \<Rightarrow> if i < length ds then Some [ds ! i] else None)
            | Scalar d \<Rightarrow> None)
      else (case discount ag of Scalar d \<Rightarrow> Some [d] | PerTask ds \<Rightarrow> None))"

text \<open>
  \<^verbatim>\<open>_td_target\<close> on the rows of one timestep: \<open>next_z ! b\<close> and \<open>rew ! b\<close> are the next latent
  and the reward of row \<open>b\<close>, \<open>eps b\<close> is the policy noise of that row.
\<close>

definition td_target ::
  "agent \<Rightarrow> ('o, 'z, 'l, 'e, 'v::{zero,plus,scaleR}) world_model \<Rightarrow> (nat \<Rightarrow> 'e) \<Rightarrow> 'z list \<Rightarrow> 'v list
     \<Rightarrow> task \<Rightarrow> 'v list option" where
  "td_target ag wm eps next_z rew task = do {
     let p = map (\<lambda>b. pi_sample (cfg ag) wm (next_z ! b) task (eps b)) [0..<length next_z];
     disc \<leftarrow> td_discount ag task;
     let q = map (\<lambda>b. Q_value wm (next_z ! b) (p ! b) task RT_min True) [0..<length next_z];
     dq \<leftarrow> broadcast2 (\<lambda>d x. d *\<^sub>R x) disc q;
     broadcast2 (\<lambda>r x. r + x) rew dq
   }"

text \<open>
  The latent state of the rollout at step \<open>t\<close>, in the words of the specification:
  \<open>z\<^sub>0 = z\<close> and \<open>z\<^bsub>t+1\<^esub> = next(z\<^sub>t, action\<^sub>t)\<close>.
\<close>

primrec latent_at ::
  "('o, 'z, 'l, 'e, 'v) world_model \<Rightarrow> 'z \<Rightarrow> real list list \<Rightarrow> task \<Rightarrow> nat \<Rightarrow> 'z" where
  "latent_at wm z acts task 0 = z"
| "latent_at wm z acts task (Suc t) =
     next_latent wm (latent_at wm z acts task t) (acts ! t) task"


text \<open>
  A world model with real-valued heads, read as one whose values are all finite.
\<close>

definition finite_model :: "('o, 'z, 'l, 'e, real) world_model \<Rightarrow> ('o, 'z, 'l, 'e, fval) world_model" where
  "finite_model wm = \<lparr> encode = encode wm, next_latent = next_latent wm, reward = reward wm,
     Q_value = (\<lambda>z a t rt tg. Fin (Q_value wm z a t rt tg)), pi_net = pi_net wm,
     two_hot_inv = (\<lambda>l. Fin (two_hot_inv wm l)), action_masks = action_masks wm \<rparr>"


section \<open>Trajectory planner\<close>

text \<open>
  The tensors of one batch row keep the layout of the source: \<^verbatim>\<open>actions\<close> is indexed by
  timestep, candidate and component, \<^verbatim>\<open>mean\<close> and \<^verbatim>\<open>std\<close> by timestep and component.
\<close>

text \<open>The policy rollout that seeds the population: the actions of one trajectory.\<close>

fun pi_rollout ::
  "config \<Rightarrow> ('o, 'z, 'l, 'e, 'v) world_model \<Rightarrow> task \<Rightarrow> (nat \<Rightarrow> 'e) \<Rightarrow> 'z \<Rightarrow> nat
     \<Rightarrow> real list list \<times> 'z" where
  "pi_rollout c wm task eps z 0 = ([], z)"
| "pi_rollout c wm task eps z (Suc t) =
     (let (as, z') = pi_rollout c wm task eps z t;
          a = pi_sample c wm z' task (eps t)
      in (as @ [a], next_latent wm z' a task))"

text \<open>\<^verbatim>\<open>pi_actions[:, -1] = ...\<close> raises when the horizon is zero.\<close>

definition pi_trajectory ::
  "config \<Rightarrow> ('o, 'z, 'l, 'e, 'v) world_model \<Rightarrow> task \<Rightarrow> (nat \<Rightarrow> 'e) \<Rightarrow> 'z
     \<Rightarrow> real list list option" where
  "pi_trajectory c wm task eps z =
     (if horizon c = 0 then None
      else (let (as, z') = pi_rollout c wm task eps z (horizon c - 1)
            in Some (as @ [pi_sample c wm z' task (eps (horizon c - 1))])))"

definition pi_actions ::
  "config \<Rightarrow> ('o, 'z, 'l, 'e, 'v) world_model \<Rightarrow> task \<Rightarrow> (nat \<Rightarrow> nat \<Rightarrow> 'e) \<Rightarrow> 'z
     \<Rightarrow> real list list list option" where
  "pi_actions c wm task eps z = do {
     trajs \<leftarrow> those (map (\<lambda>j. pi_trajectory c wm task (eps j) z) [0..<num_pi_trajs c]);
     Some (map (\<lambda>t. map (\<lambda>tr. tr ! t) trajs) [0..<horizon c])
   }"

definition zeros :: "config \<Rightarrow> real list list" where
  "zeros c = replicate (horizon c) (replicate (action_dim c) 0)"

text \<open>
  \<^verbatim>\<open>mean = zeros; if not t0: mean[:, :-1] = self._prev_mean[:, 1:]\<close> for one row whose
  buffer row has \<^verbatim>\<open>horizon\<close> entries.
\<close>

definition init_mean :: "config \<Rightarrow> bool \<Rightarrow> real list list \<Rightarrow> real list list" where
  "init_mean c t0 prev_row =
     (if t0 then zeros c else drop 1 prev_row @ drop (horizon c - 1) (zeros c))"

text \<open>\<^verbatim>\<open>(mean.unsqueeze(2) + std.unsqueeze(2) * r).clamp(-1, 1)\<close>.\<close>

definition sample_actions ::
  "config \<Rightarrow> real list list \<Rightarrow> real list list \<Rightarrow> (nat \<Rightarrow> nat \<Rightarrow> nat \<Rightarrow> real)
     \<Rightarrow> real list list list" where
  "sample_actions c mn sd r =
     map (\<lambda>t. map (\<lambda>j. map (\<lambda>d. clamp (mn ! t ! d + sd ! t ! d * r t j d) (- 1) 1)
                           [0..<action_dim c])
                  [0..<num_samples c - num_pi_trajs c])
         [0..<horizon c]"

text \<open>\<^verbatim>\<open>self.model._action_masks[task]\<close> and the product of an action with it.\<close>

definition action_mask :: "('o, 'z, 'l, 'e, 'v) world_model \<Rightarrow> task \<Rightarrow> (nat \<Rightarrow> real) option" where
  "action_mask wm task =
     (case task of
        None \<Rightarrow> None
      | Some i \<Rightarrow> if i < length (action_masks wm) then Some (action_masks wm ! i) else None)"

definition mul_mask :: "(nat \<Rightarrow> real) \<Rightarrow> real list \<Rightarrow> real list" where
  "mul_mask m a = map (\<lambda>d. a ! d * m d) [0..<length a]"

text \<open>
  The value of every candidate as it enters the elite selection:
  \<^verbatim>\<open>self._estimate_value(z, actions, task).nan_to_num(0)\<close>. Candidate \<open>j\<close> executes
  \<^verbatim>\<open>actions[:, t, j]\<close> at step \<open>t\<close>.
\<close>

definition candidate ::  "config \<Rightarrow> real list list list \<Rightarrow> nat \<Rightarrow> real list list" where
  "candidate c acts j = map (\<lambda>t. acts ! t ! j) [0..<horizon c]"

definition candidate_values ::
  "agent \<Rightarrow> ('o, 'z, 'l, 'e, fval) world_model \<Rightarrow> (nat \<Rightarrow> 'e) \<Rightarrow> 'z \<Rightarrow> real list list list \<Rightarrow> task
     \<Rightarrow> real list option" where
  "candidate_values ag wm eps z acts task = do {
     est \<leftarrow> those (map (\<lambda>j. estimate_value ag wm (eps j) z (candidate (cfg ag) acts j) task)
                        [0..<num_samples (cfg ag)]);
     Some (map (nan_to_num 0) est)
   }"

text \<open>
  \<^verbatim>\<open>torch.topk(value, k).indices\<close>: the indices of the \<open>k\<close> largest entries, largest first;
  it raises when \<open>k\<close> exceeds the number of entries. Among equal values the earlier index is
  taken first here (torch leaves that order open).
\<close>

definition topk :: "nat \<Rightarrow> real list \<Rightarrow> nat list option" where
  "topk k vs =
     (if length vs < k then None
      else Some (take k (sort_key (\<lambda>i. - (vs ! i)) [0..<length vs])))"

text \<open>
  \<^verbatim>\<open>score = exp(temperature * (elite_value - max_value)); score = score / score.sum()\<close>.
  The maximum of an empty elite set raises.
\<close>

definition elite_score :: "config \<Rightarrow> real list \<Rightarrow> real list option" where
  "elite_score c elite_value =
     (if elite_value = [] then None
      else (let max_value = Max (set elite_value);
                sc = map (\<lambda>v. exp (temperature c * (v - max_value))) elite_value
            in Some (map (\<lambda>s. s / sum_list sc) sc)))"

text \<open>
  \<^verbatim>\<open>mean = (score * elite_actions).sum(dim=2) / (score.sum() + 1e-9)\<close>, and \<^verbatim>\<open>std\<close> likewise
  from the squared deviations, then \<^verbatim>\<open>std.clamp(min_std, max_std)\<close>.
\<close>

definition update_mean :: "config \<Rightarrow> real list \<Rightarrow> real list list list \<Rightarrow> real list list" where
  "update_mean c sc elite =
     map (\<lambda>t. map (\<lambda>d. (\<Sum>k\<leftarrow>[0..<length sc]. sc ! k * elite ! t ! k ! d)
                         / (sum_list sc + 1 / 10 ^ 9))
                  [0..<action_dim c])
         [0..<horizon c]"

definition update_std ::
  "config \<Rightarrow> real list \<Rightarrow> real list list list \<Rightarrow> real list list \<Rightarrow> real list list" where
  "update_std c sc elite mn =
     map (\<lambda>t. map (\<lambda>d. clamp (sqrt ((\<Sum>k\<leftarrow>[0..<length sc]. sc ! k * (elite ! t ! k ! d - mn ! t ! d)\<^sup>2)
                                      / (sum_list sc + 1 / 10 ^ 9)))
                              (min_std c) (max_std c))
                  [0..<action_dim c])
         [0..<horizon c]"

text \<open>The variables of the refinement loop.\<close>

record mppi =
  actions :: "real list list list"
  mean :: "real list list"
  std :: "real list list"
  score :: "real list"
  elite_actions :: "real list list list"

text \<open>One iteration of the loop \<^verbatim>\<open>for _ in range(self.cfg.iterations)\<close> on row \<open>b\<close>.\<close>

definition mppi_step ::
  "agent \<Rightarrow> ('o, 'z, 'l, 'e, fval) world_model \<Rightarrow> 'e draws \<Rightarrow> task \<Rightarrow> 'z \<Rightarrow> nat \<Rightarrow> nat \<Rightarrow> mppi
     \<Rightarrow> mppi option" where
  "mppi_step ag wm dr task z b it st = do {
     let c = cfg ag;
     let actions_sample = sample_actions c (mean st) (std st) (randn dr it b);
     let acts = map (\<lambda>t. take (num_pi_trajs c) (actions st ! t) @ actions_sample ! t)
                    [0..<horizon c];
     acts \<leftarrow> (if multitask c
               then do { m \<leftarrow> action_mask wm task; Some (map (map (mul_mask m)) acts) }
               else Some acts);
     value \<leftarrow> candidate_values ag wm (boot_eps dr it b) z acts task;
     elite_idxs \<leftarrow> topk (num_elites c) value;
     let elite_value = map (\<lambda>i. value ! i) elite_idxs;
     let elite = map (\<lambda>t. map (\<lambda>i. acts ! t ! i) elite_idxs) [0..<horizon c];
     sc \<leftarrow> elite_score c elite_value;
     let mn = update_mean c sc elite;
     let sd = update_std c sc elite mn;
     (mn, sd) \<leftarrow> (if multitask c
                   then do { m \<leftarrow> action_mask wm task;
                             Some (map (mul_mask m) mn, map (mul_mask m) sd) }
                   else Some (mn, sd));
     Some \<lparr>actions = acts, mean = mn, std = sd, score = sc, elite_actions = elite\<rparr>
   }"

fun mppi_loop ::
  "agent \<Rightarrow> ('o, 'z, 'l, 'e, fval) world_model \<Rightarrow> 'e draws \<Rightarrow> task \<Rightarrow> 'z \<Rightarrow> nat \<Rightarrow> nat \<Rightarrow> mppi
     \<Rightarrow> mppi option" where
  "mppi_loop ag wm dr task z b 0 st = Some st"
| "mppi_loop ag wm dr task z b (Suc n) st = do {
     st' \<leftarrow> mppi_loop ag wm dr task z b n st;
     mppi_step ag wm dr task z b n st'
   }"

text \<open>
  The end of \<^verbatim>\<open>_plan\<close> for one row: the trajectory drawn from the elites, its first action,
  the exploration noise, the final clamp. With no iteration \<^verbatim>\<open>score\<close> is unbound; with a
  zero horizon \<^verbatim>\<open>actions[:, 0]\<close> raises.
\<close>

definition select_action ::
  "config \<Rightarrow> 'e draws \<Rightarrow> bool \<Rightarrow> nat \<Rightarrow> mppi \<Rightarrow> real list option" where
  "select_action c dr eval_mode b st = do {
     _ \<leftarrow> (if iterations c = 0 then None else Some ());
     let rand_idx = gumbel_softmax_sample dr b (score st);
     _ \<leftarrow> (if rand_idx < num_elites c then Some () else None);
     let acts = map (\<lambda>t. elite_actions st ! t ! rand_idx) [0..<horizon c];
     _ \<leftarrow> (if horizon c = 0 then None else Some ());
     let a = acts ! 0;
     let std0 = std st ! 0;
     let a = (if \<not> eval_mode
              then map (\<lambda>d. a ! d + std0 ! d * randn_noise dr d) [0..<action_dim c]
              else a);
     Some (map (\<lambda>x. clamp x (- 1) 1) a)
   }"

text \<open>
  \<^verbatim>\<open>_plan\<close> on row \<open>b\<close> with latent \<open>z\<close> and buffer row \<open>prev_row\<close>, in three parts: the
  loop variables before the first iteration, the loop, and the selection of the action. The
  slice assignment of the policy trajectories raises when there are more of them than
  candidates. The row yields its action and its final mean.
\<close>

definition plan_init ::
  "agent \<Rightarrow> ('o, 'z, 'l, 'e, fval) world_model \<Rightarrow> 'e draws \<Rightarrow> task \<Rightarrow> bool \<Rightarrow> nat \<Rightarrow> 'z
     \<Rightarrow> real list list \<Rightarrow> mppi option" where
  "plan_init ag wm dr task t0 b z prev_row = do {
     let c = cfg ag;
     pi_acts \<leftarrow> (if 0 < num_pi_trajs c then pi_actions c wm task (pi_eps dr b) z
                  else Some (replicate (horizon c) []));
     let mean0 = init_mean c t0 prev_row;
     let std0 = replicate (horizon c) (replicate (action_dim c) (max_std c));
     _ \<leftarrow> (if num_pi_trajs c \<le> num_samples c then Some () else None);
     Some \<lparr>actions = pi_acts, mean = mean0, std = std0, score = [], elite_actions = []\<rparr>
   }"

definition plan_refine ::
  "agent \<Rightarrow> ('o, 'z, 'l, 'e, fval) world_model \<Rightarrow> 'e draws \<Rightarrow> task \<Rightarrow> bool \<Rightarrow> nat \<Rightarrow> 'z
     \<Rightarrow> real list list \<Rightarrow> mppi option" where
  "plan_refine ag wm dr task t0 b z prev_row = do {
     st0 \<leftarrow> plan_init ag wm dr task t0 b z prev_row;
     mppi_loop ag wm dr task z b (iterations (cfg ag)) st0
   }"

definition plan_row ::
  "agent \<Rightarrow> ('o, 'z, 'l, 'e, fval) world_model \<Rightarrow> 'e draws \<Rightarrow> task \<Rightarrow> bool \<Rightarrow> bool \<Rightarrow> nat \<Rightarrow> 'z
     \<Rightarrow> real list list \<Rightarrow> (real list \<times> real list list) option" where
  "plan_row ag wm dr task t0 eval_mode b z prev_row = do {
     st \<leftarrow> plan_refine ag wm dr task t0 b z prev_row;
     a \<leftarrow> select_action (cfg ag) dr eval_mode b st;
     Some (a, mean st)
   }"

text \<open>
  Broadcasting along the batch dimension, as in the slice assignment from the buffer and in
  \<^verbatim>\<open>self._prev_mean.copy_(mean)\<close>: the row counts agree, or the source has one row.
\<close>

definition expand :: "nat \<Rightarrow> 'a list \<Rightarrow> 'a list option" where
  "expand n xs =
     (if length xs = n then Some xs
      else if length xs = 1 then Some (replicate n (hd xs))
      else None)"

definition buffer_shape :: "config \<Rightarrow> real list list list \<Rightarrow> bool" where
  "buffer_shape c buf \<longleftrightarrow>
     list_all (\<lambda>row. length row = horizon c \<and> list_all (\<lambda>a. length a = action_dim c) row) buf"

text \<open>
  \<^verbatim>\<open>_plan\<close>: the batch of actions and the agent with the final mean stored in
  \<^verbatim>\<open>_prev_mean\<close>. The buffer is expected in the shape the constructor gave it;
  \<^verbatim>\<open>torch.stack\<close> raises on an empty batch.
\<close>

definition plan ::
  "agent \<Rightarrow> ('o, 'z, 'l, 'e, fval) world_model \<Rightarrow> 'e draws \<Rightarrow> 'o list \<Rightarrow> bool \<Rightarrow> bool \<Rightarrow> task
     \<Rightarrow> (real list list \<times> agent) option" where
  "plan ag wm dr obs t0 eval_mode task = do {
     let b_size = length obs;
     let z = map (\<lambda>ob. encode wm ob task) obs;
     _ \<leftarrow> (if buffer_shape (cfg ag) (prev_mean ag) then Some () else None);
     prev \<leftarrow> (if t0 then Some (replicate b_size []) else expand b_size (prev_mean ag));
     rows \<leftarrow> those (map (\<lambda>b. plan_row ag wm dr task t0 eval_mode b (z ! b) (prev ! b))
                         [0..<b_size]);
     _ \<leftarrow> (if b_size = 0 then None else Some ());
     new_prev \<leftarrow> expand (length (prev_mean ag)) (map snd rows);
     Some (map fst rows, ag\<lparr>prev_mean := new_prev\<rparr>)
   }"

text \<open>
  \<^verbatim>\<open>act\<close>. With planning the result is the batch of actions of \<^verbatim>\<open>_plan\<close>; without it,
  entry \<^verbatim>\<open>[0]\<close> of the policy output, which raises on an empty batch.
\<close>

datatype act_result = Batch "real list list" | Single "real list"

definition act ::
  "agent \<Rightarrow> ('o, 'z, 'l, 'e, fval) world_model \<Rightarrow> 'e draws \<Rightarrow> 'o list \<Rightarrow> bool \<Rightarrow> bool \<Rightarrow> task
     \<Rightarrow> (act_result \<times> agent) option" where
  "act ag wm dr obs t0 eval_mode task =
     (if mpc (cfg ag)
      then do { (a, ag') \<leftarrow> plan ag wm dr obs t0 eval_mode task; Some (Batch a, ag') }
      else (let z = map (\<lambda>ob. encode wm ob task) obs;
                a = map (\<lambda>b. (if eval_mode then pi_mean else pi_sample)
                                 (cfg ag) wm (z ! b) task (act_eps dr b))
                        [0..<length obs]
            in if a = [] then None else Some (Single (a ! 0), ag)))"


section \<open>Example instances\<close>

text \<open>
  Scenario A of the specification: horizon 3, eight samples, two elites, one iteration,
  identity dynamics and reward 1 everywhere.
\<close>

definition example_cfg :: config where
  "example_cfg = \<lparr> horizon = 3, num_samples = 8, num_pi_trajs = 0, num_elites = 2,
     iterations = 1, action_dim = 1, num_envs = 1, temperature = 1 / 2,
     min_std = 1 / 20, max_std = 2, discount_min = 19 / 20, discount_max = 199 / 200,
     discount_denom = 5, discount_hardcoded = 0, multitask = False, mpc = True,
     episode_length = 100, episode_lengths = [] \<rparr>"

definition example_agent :: agent where
  "example_agent = \<lparr> cfg = example_cfg, discount = Scalar (19 / 20),
     prev_mean = [[[1 / 4], [1 / 2], [3 / 4]]] \<rparr>"

definition example_model :: "(real, real, real, unit, real) world_model" where
  "example_model = \<lparr> encode = (\<lambda>ob t. ob), next_latent = (\<lambda>z a t. z), reward = (\<lambda>z a t. 1),
     Q_value = (\<lambda>z a t rt tg. z), pi_net = (\<lambda>z t e. (\<lambda>d. 0, \<lambda>d. 1 / 2)),
     two_hot_inv = (\<lambda>l. l), action_masks = [] \<rparr>"

text \<open>
  An agent whose discount is 0: the constructor's result when \<^verbatim>\<open>discount_min\<close> is 0 and the
  episode length equals \<^verbatim>\<open>discount_denom\<close>.
\<close>

definition myopic_cfg :: config where
  "myopic_cfg = example_cfg\<lparr>discount_min := 0, episode_length := 5\<rparr>"

definition myopic_agent :: agent where
  "myopic_agent = \<lparr> cfg = myopic_cfg, discount = Scalar 0, prev_mean = [[[0], [0], [0]]] \<rparr>"

text \<open>
  A small single-task planning problem: two steps, one policy trajectory and two sampled
  candidates, two elites, one iteration, a buffer with two rows. The reward is the (single)
  component of the action, the dynamics are the identity, the policy always samples 1/2,
  and the normal draws are 1 for the first sample and 2 for the second.
\<close>

definition small_cfg :: config where
  "small_cfg = \<lparr> horizon = 2, num_samples = 3, num_pi_trajs = 1, num_elites = 2,
     iterations = 1, action_dim = 1, num_envs = 2, temperature = 1 / 2,
     min_std = 1 / 20, max_std = 2, discount_min = 19 / 20, discount_max = 199 / 200,
     discount_denom = 5, discount_hardcoded = 0, multitask = False, mpc = True,
     episode_length = 100, episode_lengths = [] \<rparr>"

definition small_agent :: agent where
  "small_agent = \<lparr> cfg = small_cfg, discount = Scalar (19 / 20),
     prev_mean = [[[1 / 4], [1 / 2]], [[0], [- 1 / 2]]] \<rparr>"

definition plan_model :: "(real, real, real, unit, fval) world_model" where
  "plan_model = \<lparr> encode = (\<lambda>ob t. ob), next_latent = (\<lambda>z a t. z), reward = (\<lambda>z a t. a ! 0),
     Q_value = (\<lambda>z a t rt tg. Fin z), pi_net = (\<lambda>z t e. (\<lambda>d. 0, \<lambda>d. 1 / 2)),
     two_hot_inv = Fin, action_masks = [\<lambda>d. if d = 0 then 1 else 0] \<rparr>"

definition example_draws :: "unit draws" where
  "example_draws = \<lparr> pi_eps = (\<lambda>b j t. ()), randn = (\<lambda>it b t j d. if j = 0 then 1 else 2),
     boot_eps = (\<lambda>it b j. ()), gumbel_softmax_sample = (\<lambda>b sc. 1), randn_noise = (\<lambda>d. 0),
     act_eps = (\<lambda>b. ()) \<rparr>"

text \<open>The loop variables of a row of the small problem after its one iteration.\<close>

definition small_elite :: "real list list list" where
  "small_elite = [[[1], [1]], [[1], [1]]]"

definition small_mean :: "real list list" where
  "small_mean = [[1000000000 / 1000000001], [1000000000 / 1000000001]]"

definition small_state :: mppi where
  "small_state = \<lparr> actions = [[[1 / 2], [1], [1]], [[1 / 2], [1], [1]]], mean = small_mean,
     std = update_std small_cfg [1 / 2, 1 / 2] small_elite small_mean,
     score = [1 / 2, 1 / 2], elite_actions = small_elite \<rparr>"

text \<open>The same world model with a critic that overflows.\<close>

definition degenerate_model :: "(real, real, real, unit, fval) world_model" where
  "degenerate_model = plan_model\<lparr>Q_value := (\<lambda>z a t rt tg. PInf)\<rparr>"

text \<open>
  A multi-task problem with one task whose mask keeps component 0 of a two-component
  action and removes component 1: one step, two sampled candidates, one elite.
\<close>

definition multi_cfg :: config where
  "multi_cfg = \<lparr> horizon = 1, num_samples = 2, num_pi_trajs = 0, num_elites = 1,
     iterations = 1, action_dim = 2, num_envs = 1, temperature = 1 / 2,
     min_std = 1 / 20, max_std = 2, discount_min = 19 / 20, discount_max = 199 / 200,
     discount_denom = 5, discount_hardcoded = 0, multitask = True, mpc = True,
     episode_length = 100, episode_lengths = [100] \<rparr>"

definition multi_agent :: agent where
  "multi_agent = \<lparr> cfg = multi_cfg, discount = PerTask [19 / 20], prev_mean = [[[0, 0]]] \<rparr>"




text \<open>An agent that acts without planning.\<close>

definition policy_agent :: agent where
  "policy_agent = small_agent\<lparr>cfg := small_cfg\<lparr>mpc := False\<rparr>\<rparr>"

text \<open>A configuration with a discount override below \<^verbatim>\<open>discount_min\<close>.\<close>

definition override_cfg :: config where
  "override_cfg = example_cfg\<lparr>discount_hardcoded := 1 / 2\<rparr>"

section \<open>Properties of the discount scheduler\<close>


lemma get_discount_computed:
  assumes "discount_hardcoded c = 0" "discount_denom c \<noteq> 0" "ep_len \<noteq> 0"
  shows "get_discount c ep_len = Inr (spec_discount c ep_len)"
  using assms by (simp add: get_discount_def spec_discount_def clamp_def Let_def)

lemma spec_discount_shape:
  assumes "discount_denom c \<noteq> 0" "ep_len \<noteq> 0"
  shows "spec_discount c ep_len
           = clamp (1 - discount_denom c / real_of_int ep_len) (discount_min c) (discount_max c)"
proof -
  let ?f = "real_of_int ep_len / discount_denom c"
  have "(?f - 1) / ?f = 1 - discount_denom c / real_of_int ep_len"
    using assms by (simp add: field_simps)
  then show ?thesis by (simp add: spec_discount_def Let_def)
qed

lemma clamp_tendsto:
  assumes "f \<longlonglongrightarrow> a"
  shows "(\<lambda>n. clamp (f n) lo hi) \<longlonglongrightarrow> clamp a lo hi"
  unfolding clamp_def
  by (intro tendsto_min tendsto_max tendsto_const assms)

lemma denom_over_n_tendsto: "(\<lambda>n. d / real (Suc n)) \<longlonglongrightarrow> 0"
proof -
  have "(\<lambda>n. d * inverse (real (Suc n))) \<longlonglongrightarrow> d * 0"
    by (intro tendsto_mult tendsto_const LIMSEQ_inverse_real_of_nat)
  then show ?thesis by (simp add: divide_inverse)
qed

lemma spec_discount_limit:
  assumes "discount_denom c \<noteq> 0"
  shows "(\<lambda>n. spec_discount c (int (Suc n))) \<longlonglongrightarrow> clamp 1 (discount_min c) (discount_max c)"
proof -
  have "(\<lambda>n. 1 - discount_denom c / real (Suc n)) \<longlonglongrightarrow> 1 - 0"
    by (intro tendsto_diff tendsto_const denom_over_n_tendsto)
  then have "(\<lambda>n. clamp (1 - discount_denom c / real (Suc n)) (discount_min c) (discount_max c))
               \<longlonglongrightarrow> clamp 1 (discount_min c) (discount_max c)"
    using clamp_tendsto by fastforce
  moreover have "spec_discount c (int (Suc n))
       = clamp (1 - discount_denom c / real (Suc n)) (discount_min c) (discount_max c)" for n
    using spec_discount_shape [OF assms, of "int (Suc n)"] by simp
  ultimately show ?thesis by simp
qed


lemma get_discount_range:
  assumes "discount_min c \<le> discount_max c" and "discount_hardcoded c = 0"
    and "get_discount c ep = Inr d"
  shows "discount_min c \<le> d \<and> d \<le> discount_max c"
  using assms by (auto simp: get_discount_def Let_def split: if_splits)

lemma discounts_range:
  assumes "discount_min c \<le> discount_max c" and "discount_hardcoded c = 0"
  shows "discounts c ls = Inr ds \<Longrightarrow> list_all (\<lambda>d. discount_min c \<le> d \<and> d \<le> discount_max c) ds"
proof (induction ls arbitrary: ds)
  case Nil
  then show ?case by simp
next
  case (Cons l ls)
  then obtain d ds' where d: "get_discount c l = Inr d" and ds': "discounts c ls = Inr ds'"
    and eq: "ds = d # ds'"
    by (auto split: sum.splits)
  from get_discount_range [OF assms d] Cons.IH [OF ds'] eq show ?case by simp
qed

lemma init_discount_range:
  assumes "discount_min c \<le> discount_max c" and "discount_hardcoded c = 0" and "init c = Inr ag"
  shows "case discount ag of
           Scalar d \<Rightarrow> discount_min c \<le> d \<and> d \<le> discount_max c
         | PerTask ds \<Rightarrow> list_all (\<lambda>d. discount_min c \<le> d \<and> d \<le> discount_max c) ds"
proof -
  let ?c = "c\<lparr>iterations := iterations c + 2 * (if 20 \<le> action_dim c then 1 else 0)\<rparr>"
  have r: "discount_min ?c \<le> discount_max ?c" "discount_hardcoded ?c = 0"
    using assms by simp_all
  show ?thesis
  proof (cases "multitask c")
    case True
    with assms(3) obtain ds where "discounts ?c (episode_lengths c) = Inr ds" "discount ag = PerTask ds"
      by (auto simp: init_def Let_def split: sum.splits)
    with discounts_range [OF r] show ?thesis by simp
  next
    case False
    with assms(3) obtain d where "get_discount ?c (episode_length c) = Inr d" "discount ag = Scalar d"
      by (auto simp: init_def Let_def split: sum.splits)
    with get_discount_range [OF r] show ?thesis by simp
  qed
qed

text \<open>
  Claim C7. Without a hardcoded override and with a nonzero denominator,
  \<^verbatim>\<open>_get_discount\<close> returns, for every nonzero episode length, the clamp of
  \<open>(frac - 1) / frac\<close> with \<open>frac = episode_length / discount_denom\<close>; for an episode
  length equal to the denominator that is the clamp of 0; and along growing episode lengths
  the returned discount converges to the clamp of 1.
\<close>

theorem get_discount_heuristic:
  assumes "discount_hardcoded c = 0" and "discount_denom c \<noteq> 0"
  shows "(\<forall>ep. ep \<noteq> 0 \<longrightarrow> get_discount c ep = Inr (spec_discount c ep))
       \<and> (\<forall>ep. real_of_int ep = discount_denom c \<longrightarrow>
              get_discount c ep = Inr (clamp 0 (discount_min c) (discount_max c)))
       \<and> (\<lambda>n. projr (get_discount c (int (Suc n))))
            \<longlonglongrightarrow> clamp 1 (discount_min c) (discount_max c)"
proof (intro conjI allI impI)
  fix ep :: int
  assume "ep \<noteq> 0"
  then show "get_discount c ep = Inr (spec_discount c ep)"
    using assms by (rule get_discount_computed [rotated 2])
next
  fix ep :: int
  assume eq: "real_of_int ep = discount_denom c"
  then have nz: "ep \<noteq> 0" using assms(2) by auto
  have "spec_discount c ep = clamp 0 (discount_min c) (discount_max c)"
    using eq assms(2) by (simp add: spec_discount_def)
  then show "get_discount c ep = Inr (clamp 0 (discount_min c) (discount_max c))"
    using get_discount_computed [OF assms nz] by simp
next
  have "projr (get_discount c (int (Suc n))) = spec_discount c (int (Suc n))" for n
    using get_discount_computed [OF assms, of "int (Suc n)"] by simp
  then show "(\<lambda>n. projr (get_discount c (int (Suc n))))
               \<longlonglongrightarrow> clamp 1 (discount_min c) (discount_max c)"
    using spec_discount_limit [OF assms(2)] by simp
qed

theorem get_discount_heuristic_witness:
  "get_discount example_cfg 100 = Inr (19 / 20)
   \<and> get_discount example_cfg 5 = Inr (clamp 0 (19 / 20) (199 / 200))
   \<and> (\<lambda>n. projr (get_discount example_cfg (int (Suc n)))) \<longlonglongrightarrow> clamp 1 (19 / 20) (199 / 200)"
proof -
  have h: "discount_hardcoded example_cfg = 0" "discount_denom example_cfg \<noteq> 0"
    by (simp_all add: example_cfg_def)
  have s: "spec_discount example_cfg 100 = 19 / 20"
    by (simp add: spec_discount_def example_cfg_def clamp_def)
  have m: "discount_min example_cfg = 19 / 20" "discount_max example_cfg = 199 / 200"
    "real_of_int 5 = discount_denom example_cfg"
    by (simp_all add: example_cfg_def)
  show ?thesis
    using get_discount_heuristic [OF h] s m by auto
qed

text \<open>
  Claim C8 fails under an override: a hardcoded discount is returned unchanged, also when it
  lies outside \<open>[discount_min, discount_max]\<close>.
\<close>

theorem override_outside_range:
  "get_discount override_cfg 100 = Inr (1 / 2)
   \<and> \<not> discount_min override_cfg \<le> 1 / 2
   \<and> init override_cfg = Inr \<lparr> cfg = override_cfg, discount = Scalar (1 / 2),
                                 prev_mean = [[[0], [0], [0]]] \<rparr>"
  by (simp add: get_discount_def init_def override_cfg_def example_cfg_def numeral_3_eq_3)

text \<open>
  Claim C8, amended. When \<open>discount_min \<le> discount_max\<close> and no override is configured,
  every discount that \<^verbatim>\<open>_get_discount\<close> returns, and hence every discount the constructor
  stores, lies in \<open>[discount_min, discount_max]\<close>; with an override configured the result is
  the override itself.
\<close>

theorem discount_in_range_without_override:
  assumes "discount_min c \<le> discount_max c"
  shows "(\<forall>ep d. discount_hardcoded c = 0 \<and> get_discount c ep = Inr d \<longrightarrow>
            discount_min c \<le> d \<and> d \<le> discount_max c)
       \<and> (\<forall>ag. discount_hardcoded c = 0 \<and> init c = Inr ag \<longrightarrow>
            (case discount ag of
               Scalar d \<Rightarrow> discount_min c \<le> d \<and> d \<le> discount_max c
             | PerTask ds \<Rightarrow> list_all (\<lambda>d. discount_min c \<le> d \<and> d \<le> discount_max c) ds))
       \<and> (\<forall>ep. discount_hardcoded c \<noteq> 0 \<longrightarrow> get_discount c ep = Inr (discount_hardcoded c))"
proof -
  have a: "discount_min c \<le> d \<and> d \<le> discount_max c"
    if "discount_hardcoded c = 0 \<and> get_discount c ep = Inr d" for ep d
    using get_discount_range [OF assms] that by blast
  have b: "case discount ag of
             Scalar d \<Rightarrow> discount_min c \<le> d \<and> d \<le> discount_max c
           | PerTask ds \<Rightarrow> list_all (\<lambda>d. discount_min c \<le> d \<and> d \<le> discount_max c) ds"
    if "discount_hardcoded c = 0 \<and> init c = Inr ag" for ag
    using init_discount_range [OF assms] that by blast
  have c: "get_discount c ep = Inr (discount_hardcoded c)" if "discount_hardcoded c \<noteq> 0" for ep
    using that by (simp add: get_discount_def)
  show ?thesis
    using a b c by blast
qed

theorem discount_in_range_witness:
  "get_discount example_cfg 100 = Inr (19 / 20)
   \<and> discount_min example_cfg \<le> 19 / 20 \<and> 19 / 20 \<le> discount_max example_cfg
   \<and> get_discount override_cfg 100 = Inr (discount_hardcoded override_cfg)"
proof -
  have h: "discount_min example_cfg \<le> discount_max example_cfg"
    by (simp add: example_cfg_def)
  have h': "discount_min override_cfg \<le> discount_max override_cfg"
    by (simp add: override_cfg_def example_cfg_def)
  have e: "discount_hardcoded example_cfg = 0 \<and> get_discount example_cfg 100 = Inr (19 / 20)"
    by (simp add: get_discount_def example_cfg_def)
  have o: "discount_hardcoded override_cfg \<noteq> 0"
    by (simp add: override_cfg_def)
  show ?thesis
    using discount_in_range_without_override [OF h] discount_in_range_without_override [OF h'] e o
    by blast
qed


section \<open>Properties of the value estimator and the TD target\<close>

lemma estimate_steps_closed:
  fixes wm :: "('o, 'z, 'l, 'e, real) world_model"
  assumes "task_discount ag task = Some d" and "t \<le> length acts"
  shows "estimate_steps ag wm z acts task t =
           Some (latent_at wm z acts task t,
                 (\<Sum>k<t. d ^ k * two_hot_inv wm (reward wm (latent_at wm z acts task k) (acts ! k) task)),
                 d ^ t)"
  using assms(2)
proof (induction t)
  case 0
  show ?case by simp
next
  case (Suc t)
  then have "t < length acts" and "t \<le> length acts" by simp_all
  with Suc.IH assms(1) show ?case by (simp add: Let_def)
qed

text \<open>
  Claim C1. In exact arithmetic, for every latent state, every action sequence of length
  \<open>horizon\<close> and every task that has a discount \<open>d\<close>, \<^verbatim>\<open>_estimate_value\<close> returns the sum
  over \<open>t < horizon\<close> of \<open>d\<^sup>t\<close> times the decoded reward at \<open>(z\<^sub>t, action\<^sub>t)\<close> plus \<open>d\<close> to the
  power \<open>horizon\<close> times the ensemble-average Q of the final latent and a sampled policy
  action; with identity dynamics, reward 1 and horizon 3 that is
  \<open>1 + d + d\<^sup>2 + d\<^sup>3 * bootstrap\<close>.
\<close>

theorem estimate_value_return:
  fixes wm :: "('o, 'z, 'l, 'e, real) world_model"
  assumes "task_discount ag task = Some d" and "length acts = horizon (cfg ag)"
  shows "estimate_value ag wm e z acts task =
           Some ((\<Sum>t<horizon (cfg ag).
                    d ^ t * two_hot_inv wm (reward wm (latent_at wm z acts task t) (acts ! t) task))
                 + d ^ horizon (cfg ag)
                   * Q_value wm (latent_at wm z acts task (horizon (cfg ag)))
                       (pi_sample (cfg ag) wm (latent_at wm z acts task (horizon (cfg ag))) task e)
                       task RT_avg False)
       \<and> (horizon (cfg ag) = 3 \<and> (\<forall>z' a. next_latent wm z' a task = z')
            \<and> (\<forall>z' a. two_hot_inv wm (reward wm z' a task) = 1) \<longrightarrow>
          estimate_value ag wm e z acts task =
            Some (1 + d + d\<^sup>2 + d ^ 3 * Q_value wm z (pi_sample (cfg ag) wm z task e) task RT_avg False))"
proof -
  have steps: "estimate_steps ag wm z acts task (horizon (cfg ag)) =
      Some (latent_at wm z acts task (horizon (cfg ag)),
            (\<Sum>k<horizon (cfg ag).
               d ^ k * two_hot_inv wm (reward wm (latent_at wm z acts task k) (acts ! k) task)),
            d ^ horizon (cfg ag))"
    using estimate_steps_closed [OF assms(1), of "horizon (cfg ag)" acts wm z] assms(2) by simp
  then have general: "estimate_value ag wm e z acts task =
      Some ((\<Sum>t<horizon (cfg ag).
               d ^ t * two_hot_inv wm (reward wm (latent_at wm z acts task t) (acts ! t) task))
            + d ^ horizon (cfg ag)
              * Q_value wm (latent_at wm z acts task (horizon (cfg ag)))
                  (pi_sample (cfg ag) wm (latent_at wm z acts task (horizon (cfg ag))) task e)
                  task RT_avg False)"
    by (simp add: estimate_value_def)
  have scenario: "estimate_value ag wm e z acts task =
      Some (1 + d + d\<^sup>2 + d ^ 3 * Q_value wm z (pi_sample (cfg ag) wm z task e) task RT_avg False)"
    if h: "horizon (cfg ag) = 3" and idn: "\<forall>z' a. next_latent wm z' a task = z'"
      and one: "\<forall>z' a. two_hot_inv wm (reward wm z' a task) = 1"
  proof -
    have stay: "latent_at wm z acts task t = z" for t
      by (induction t) (simp_all add: idn)
    have "(\<Sum>t<(3::nat). d ^ t * (1::real)) = 1 + d + d\<^sup>2"
      by (simp add: numeral_3_eq_3 power2_eq_square)
    then show ?thesis
      using general by (simp add: h stay one)
  qed
  show ?thesis
    using general scenario by blast
qed

theorem estimate_value_return_witness:
  "task_discount example_agent None = Some (19 / 20)
   \<and> length [[0], [0], [0::real]] = horizon (cfg example_agent)
   \<and> estimate_value example_agent example_model () 2 [[0], [0], [0]] None
       = Some (1 + 19 / 20 + (19 / 20)\<^sup>2 + (19 / 20) ^ 3 * 2)"
proof -
  have d: "task_discount example_agent None = Some (19 / 20)"
    by (simp add: task_discount_def example_agent_def example_cfg_def)
  have l: "length [[0], [0], [0::real]] = horizon (cfg example_agent)"
    by (simp add: example_agent_def example_cfg_def)
  have s: "horizon (cfg example_agent) = 3
           \<and> (\<forall>z' a. next_latent example_model z' a None = z')
           \<and> (\<forall>z' a. two_hot_inv example_model (reward example_model z' a None) = 1)"
    by (simp add: example_agent_def example_cfg_def example_model_def)
  have q: "Q_value example_model 2 a None RT_avg False = 2" for a
    by (simp add: example_model_def)
  from estimate_value_return [OF d l, of example_model "()" 2] s
  have "estimate_value example_agent example_model () 2 [[0], [0], [0]] None
          = Some (1 + 19 / 20 + (19 / 20)\<^sup>2
                  + (19 / 20) ^ 3 * Q_value example_model 2
                      (pi_sample (cfg example_agent) example_model 2 None ()) None RT_avg False)"
    by blast
  then show ?thesis
    using d l q by simp
qed

text \<open>
  On a world model with finite heads the estimate computed with \<open>fval\<close> entries, as the
  planner computes it, is the estimate in exact arithmetic.
\<close>

lemma estimate_steps_finite:
  "estimate_steps ag (finite_model wm) z acts task t
     = map_option (\<lambda>(z', G, disc). (z', Fin G, disc)) (estimate_steps ag wm z acts task t)"
proof (induction t)
  case 0
  show ?case by (simp add: zero_fval_def)
next
  case (Suc t)
  show ?case
  proof (cases "estimate_steps ag wm z acts task t")
    case None
    with Suc show ?thesis by simp
  next
    case (Some s)
    obtain z' G disc where s: "s = (z', G, disc)" by (cases s) auto
    show ?thesis
    proof (cases "task_discount ag task")
      case None
      with Suc Some s show ?thesis by (simp add: finite_model_def)
    next
      case (Some d)
      with Suc \<open>estimate_steps ag wm z acts task t = Some s\<close> s show ?thesis
        by (simp add: finite_model_def)
    qed
  qed
qed

lemma estimate_value_finite:
  "estimate_value ag (finite_model wm) e z acts task
     = map_option Fin (estimate_value ag wm e z acts task)"
proof (cases "estimate_steps ag wm z acts task (horizon (cfg ag))")
  case None
  then show ?thesis by (simp add: estimate_value_def estimate_steps_finite)
next
  case (Some s)
  obtain z' G disc where "s = (z', G, disc)" by (cases s) auto
  with Some show ?thesis
    by (simp add: estimate_value_def estimate_steps_finite)
      (simp add: finite_model_def pi_sample_def)
qed

lemma broadcast2_same:
  assumes "length xs = length ys"
  shows "broadcast2 f xs ys = Some (map (\<lambda>b. f (xs ! b) (ys ! b)) [0..<length ys])"
proof -
  have "map2 f xs ys = map (\<lambda>b. f (xs ! b) (ys ! b)) [0..<length ys]"
    using assms by (intro nth_equalityI) simp_all
  then show ?thesis using assms by (simp add: broadcast2_def)
qed

lemma broadcast2_one:
  assumes "length xs = 1"
  shows "broadcast2 f xs ys = Some (map (\<lambda>b. f (xs ! 0) (ys ! b)) [0..<length ys])"
proof (cases "length ys = 1")
  case True
  with assms broadcast2_same [of xs ys f] show ?thesis by simp
next
  case False
  have "map (f (xs ! 0)) ys = map (\<lambda>b. f (xs ! 0) (ys ! b)) [0..<length ys]"
    by (intro nth_equalityI) simp_all
  with False assms show ?thesis by (simp add: broadcast2_def)
qed

lemma plus_Fin_zero: "x + Fin 0 = x"
  by (cases x) simp_all

lemma td_target_rows:
  fixes wm :: "('o, 'z, 'l, 'e, 'v::{zero,plus,scaleR}) world_model"
  assumes "td_discount ag task = Some ds"
    and "length ds = 1 \<or> length ds = length next_z"
    and "length rew = length next_z"
  shows "td_target ag wm eps next_z rew task =
           Some (map (\<lambda>b. rew ! b
                          + (if length ds = 1 then ds ! 0 else ds ! b)
                            *\<^sub>R Q_value wm (next_z ! b)
                                 (pi_sample (cfg ag) wm (next_z ! b) task (eps b)) task RT_min True)
                     [0..<length next_z])"
proof -
  let ?n = "length next_z"
  let ?q = "map (\<lambda>b. Q_value wm (next_z ! b)
                 (map (\<lambda>b. pi_sample (cfg ag) wm (next_z ! b) task (eps b)) [0..<?n] ! b)
                 task RT_min True) [0..<?n]"
  let ?Q = "\<lambda>b. Q_value wm (next_z ! b) (pi_sample (cfg ag) wm (next_z ! b) task (eps b)) task RT_min True"
  let ?d = "\<lambda>b. if length ds = 1 then ds ! 0 else ds ! b"
  have q: "?q = map ?Q [0..<?n]" by simp
  have dq: "broadcast2 (\<lambda>d x. d *\<^sub>R x) ds (map ?Q [0..<?n]) = Some (map (\<lambda>b. ?d b *\<^sub>R ?Q b) [0..<?n])"
  proof (cases "length ds = 1")
    case True
    from broadcast2_one [OF True, of "\<lambda>d x. d *\<^sub>R x" "map ?Q [0..<?n]"] True
    show ?thesis by simp
  next
    case False
    with assms(2) have l: "length ds = length (map ?Q [0..<?n])" by simp
    from broadcast2_same [OF l, of "\<lambda>d x. d *\<^sub>R x"] False
    show ?thesis by simp
  qed
  have l: "length rew = length (map (\<lambda>b. ?d b *\<^sub>R ?Q b) [0..<?n])"
    using assms(3) by simp
  have sum: "broadcast2 (\<lambda>r x. r + x) rew (map (\<lambda>b. ?d b *\<^sub>R ?Q b) [0..<?n])
               = Some (map (\<lambda>b. rew ! b + ?d b *\<^sub>R ?Q b) [0..<?n])"
    using broadcast2_same [OF l, of "\<lambda>r x. r + x"] by simp
  show ?thesis
    unfolding td_target_def Let_def q
    using assms(1) dq sum by simp
qed

text \<open>
  Claim C6, amended. For every batch of next latents and rewards and every task,
  \<^verbatim>\<open>_td_target\<close> returns, row by row, the reward plus the discount times the Q-value of the
  next latent and a sampled policy action, requested as the minimum over the ensemble and
  from the target network, the sum and the product being those of IEEE arithmetic; when the
  discount is 0 and the Q-value is finite, the target is the reward itself. (The discount
  has one row, or one row per row of the batch.)
\<close>

theorem td_target_return:
  fixes wm :: "('o, 'z, 'l, 'e, fval) world_model"
  assumes "td_discount ag task = Some ds"
    and "length ds = 1 \<or> length ds = length next_z"
    and "length rew = length next_z"
  shows "td_target ag wm eps next_z rew task =
           Some (map (\<lambda>b. rew ! b
                          + (if length ds = 1 then ds ! 0 else ds ! b)
                            *\<^sub>R Q_value wm (next_z ! b)
                                 (pi_sample (cfg ag) wm (next_z ! b) task (eps b)) task RT_min True)
                     [0..<length next_z])
       \<and> ((\<forall>b<length next_z.
              (if length ds = 1 then ds ! 0 else ds ! b) = 0
              \<and> (\<exists>q. Q_value wm (next_z ! b)
                         (pi_sample (cfg ag) wm (next_z ! b) task (eps b)) task RT_min True = Fin q))
            \<longrightarrow> td_target ag wm eps next_z rew task = Some rew)"
proof -
  let ?Q = "\<lambda>b. Q_value wm (next_z ! b) (pi_sample (cfg ag) wm (next_z ! b) task (eps b)) task RT_min True"
  let ?d = "\<lambda>b. if length ds = 1 then ds ! 0 else ds ! b"
  note rows = td_target_rows [OF assms, of wm eps]
  have zero: "td_target ag wm eps next_z rew task = Some rew"
    if h: "\<forall>b<length next_z. ?d b = 0 \<and> (\<exists>q. ?Q b = Fin q)"
  proof -
    have "rew ! b + ?d b *\<^sub>R ?Q b = rew ! b" if "b < length next_z" for b
    proof -
      from h that obtain q where "?d b = 0" and "?Q b = Fin q" by blast
      then show ?thesis by (simp add: plus_Fin_zero)
    qed
    then have "map (\<lambda>b. rew ! b + ?d b *\<^sub>R ?Q b) [0..<length next_z] = map (\<lambda>b. rew ! b) [0..<length rew]"
      using assms(3) by simp
    also have "\<dots> = rew" by (rule map_nth)
    finally show ?thesis using rows by simp
  qed
  from rows zero show ?thesis by blast
qed

lemma myopic_discount: "td_discount myopic_agent None = Some [0]"
  by (simp add: td_discount_def myopic_agent_def myopic_cfg_def example_cfg_def)

text \<open>
  Claim C6, amended: an agent with discount 0 on two rows, and a multi-task agent called
  without a task.
\<close>

theorem td_target_return_witness:
  "td_discount myopic_agent None = Some [0]
   \<and> length [Fin 7, Fin 8] = length [2, 3 :: real]
   \<and> Q_value plan_model 2 [1 / 2] None RT_min True = Fin 2
   \<and> td_target myopic_agent plan_model (act_eps example_draws) [2, 3] [Fin 7, Fin 8] None
       = Some [Fin 7, Fin 8]
   \<and> td_discount multi_agent None = Some [19 / 20]
   \<and> td_target multi_agent plan_model (act_eps example_draws) [2] [Fin 7] None
       = Some [Fin (89 / 10)]"
proof -
  have l1: "length [0 :: real] = 1 \<or> length [0 :: real] = length [2, 3 :: real]" by simp
  have l2: "length [Fin 7, Fin 8] = length [2, 3 :: real]" by simp
  have fin: "\<forall>b<length [2, 3 :: real].
      (if length [0 :: real] = 1 then [0 :: real] ! 0 else [0] ! b) = 0
      \<and> (\<exists>q. Q_value plan_model ([2, 3] ! b)
            (pi_sample (cfg myopic_agent) plan_model ([2, 3] ! b) None (act_eps example_draws b))
            None RT_min True = Fin q)"
    by (simp add: plan_model_def)
  from td_target_return [OF myopic_discount l1 l2, of plan_model "act_eps example_draws"] fin
  have a: "td_target myopic_agent plan_model (act_eps example_draws) [2, 3] [Fin 7, Fin 8] None
       = Some [Fin 7, Fin 8]"
    by blast
  have d: "td_discount multi_agent None = Some [19 / 20]"
    by (simp add: td_discount_def multi_agent_def multi_cfg_def)
  have m1: "length [19 / 20 :: real] = 1 \<or> length [19 / 20 :: real] = length [2 :: real]" by simp
  have m2: "length [Fin 7] = length [2 :: real]" by simp
  from td_target_return [OF d m1 m2, of plan_model "act_eps example_draws"]
  have b: "td_target multi_agent plan_model (act_eps example_draws) [2] [Fin 7] None
       = Some [Fin (89 / 10)]"
    by (simp add: plan_model_def)
  have q: "Q_value plan_model 2 [1 / 2] None RT_min True = Fin 2"
    by (simp add: plan_model_def)
  show ?thesis
    using myopic_discount l2 q a d b by blast
qed

text \<open>
  Claim C6 fails for a bootstrap that is not finite: the constructor gives the discount 0
  when \<^verbatim>\<open>discount_min\<close> is 0 and the episode length equals \<^verbatim>\<open>discount_denom\<close>, and with
  a critic that returns positive infinity the product \<^verbatim>\<open>0 * inf\<close> is NaN, so the target of
  reward 7 is NaN.
\<close>

theorem td_target_nan_bootstrap:
  "init myopic_cfg = Inr myopic_agent
   \<and> td_discount myopic_agent None = Some [0]
   \<and> Q_value degenerate_model 2 [1 / 2] None RT_min True = PInf
   \<and> td_target myopic_agent degenerate_model (act_eps example_draws) [2] [Fin 7] None = Some [NaN]
   \<and> NaN \<noteq> Fin 7"
proof -
  have i: "init myopic_cfg = Inr myopic_agent"
    by (simp add: init_def get_discount_def myopic_cfg_def example_cfg_def myopic_agent_def
        numeral_3_eq_3)
  have q: "Q_value degenerate_model 2 [1 / 2] None RT_min True = PInf"
    by (simp add: degenerate_model_def)
  have t: "td_target myopic_agent degenerate_model (act_eps example_draws) [2] [Fin 7] None = Some [NaN]"
    by (simp add: td_target_def myopic_discount broadcast2_def degenerate_model_def)
  show ?thesis
    using i myopic_discount q t by simp
qed

section \<open>Properties of the planner's steps\<close>

lemma those_map_Some:
  "those (map f xs) = Some ys \<Longrightarrow> length ys = length xs \<and> (\<forall>i<length xs. f (xs ! i) = Some (ys ! i))"
proof (induction xs arbitrary: ys)
  case Nil
  then show ?case by simp
next
  case (Cons x xs)
  then obtain y ys' where y: "f x = Some y" and ys': "those (map f xs) = Some ys'" and eq: "ys = y # ys'"
    by (auto split: option.splits)
  from Cons.IH [OF ys'] y eq show ?case
    by (auto simp: nth_Cons split: nat.splits)
qed

lemma those_upt_Some:
  assumes "those (map f [0..<n]) = Some ys"
  shows "length ys = n \<and> (\<forall>i<n. f i = Some (ys ! i))"
  using those_map_Some [OF assms] by simp

lemma candidate_values_nth:
  assumes "candidate_values ag wm eps z acts task = Some vs"
  shows "length vs = num_samples (cfg ag)
       \<and> (\<forall>j<num_samples (cfg ag). \<exists>x.
             estimate_value ag wm (eps j) z (candidate (cfg ag) acts j) task = Some x
             \<and> vs ! j = nan_to_num 0 x)"
proof -
  from assms obtain est where
    est: "those (map (\<lambda>j. estimate_value ag wm (eps j) z (candidate (cfg ag) acts j) task)
                     [0..<num_samples (cfg ag)]) = Some est"
    and vs: "vs = map (nan_to_num 0) est"
    by (auto simp: candidate_values_def bind_eq_Some_conv)
  from those_upt_Some [OF est] vs show ?thesis by simp
qed





lemma mppi_step_result:
  assumes "mppi_step ag wm dr task z b it st = Some st'"
  shows "\<exists>vs idxs.
           candidate_values ag wm (boot_eps dr it b) z (actions st') task = Some vs
         \<and> topk (num_elites (cfg ag)) vs = Some idxs
         \<and> elite_score (cfg ag) (map (\<lambda>i. vs ! i) idxs) = Some (score st')
         \<and> elite_actions st' = map (\<lambda>t. map (\<lambda>i. actions st' ! t ! i) idxs) [0..<horizon (cfg ag)]
         \<and> (if multitask (cfg ag)
            then \<exists>m. action_mask wm task = Some m
               \<and> mean st' = map (mul_mask m) (update_mean (cfg ag) (score st') (elite_actions st'))
               \<and> std st' = map (mul_mask m) (update_std (cfg ag) (score st') (elite_actions st')
                                  (update_mean (cfg ag) (score st') (elite_actions st')))
            else mean st' = update_mean (cfg ag) (score st') (elite_actions st')
               \<and> std st' = update_std (cfg ag) (score st') (elite_actions st')
                                  (update_mean (cfg ag) (score st') (elite_actions st')))"
  using assms
  by (auto simp: mppi_step_def bind_eq_Some_conv Let_def split: if_splits)

section \<open>The small planning problem, evaluated\<close>

lemma upt2: "[0..<2] = [0, 1]" by (simp add: upt_rec numeral_2_eq_2)
lemma upt3: "[0..<3] = [0, 1, 2]" by (simp add: upt_rec numeral_3_eq_3)

lemma small_cfg_simps: "cfg small_agent = small_cfg" "horizon small_cfg = 2" "num_samples small_cfg = 3"
  "num_pi_trajs small_cfg = 1" "num_elites small_cfg = 2" "iterations small_cfg = 1"
  "action_dim small_cfg = 1" "temperature small_cfg = 1/2"
  "min_std small_cfg = 1/20" "max_std small_cfg = 2" "multitask small_cfg = False"
  "discount small_agent = Scalar (19/20)"
  by (simp_all add: small_agent_def small_cfg_def)

lemma small_discount: "task_discount small_agent task = Some (19/20)"
  by (simp add: task_discount_def small_cfg_simps)

lemma small_estimate:
  "estimate_value small_agent plan_model e z [[x], [y]] None = Some (Fin (x + 19 / 20 * y + 361 / 400 * z))"
  by (simp add: estimate_value_def small_cfg_simps small_discount numeral_2_eq_2 plan_model_def zero_fval_def)

lemma small_values:
  "candidate_values small_agent plan_model e z [[[1 / 2], [1], [1]], [[1 / 2], [1], [1]]] None
     = Some [39 / 40 + 361 / 400 * z, 39 / 20 + 361 / 400 * z, 39 / 20 + 361 / 400 * z]"
  by (simp add: candidate_values_def small_cfg_simps upt2 upt3 candidate_def small_estimate)

lemma small_topk: "topk 2 [39 / 40 + c, 39 / 20 + c, 39 / 20 + c] = Some [1, 2]"
  by (simp add: topk_def upt3)

lemma small_score: "elite_score small_cfg [v, v] = Some [1/2, 1/2]"
  by (simp add: elite_score_def Let_def)

lemma small_pi: "pi_actions small_cfg plan_model None eps z = Some [[[1/2]], [[1/2]]]"
  by (simp add: pi_actions_def pi_trajectory_def small_cfg_simps upt2 pi_sample_def tabulate_def plan_model_def)

lemma small_update_mean: "update_mean small_cfg [1 / 2, 1 / 2] small_elite = small_mean"
  by (simp add: update_mean_def small_cfg_simps upt2 small_elite_def small_mean_def)

lemma small_sample:
  assumes "- 1 \<le> m0" "- 1 \<le> m1"
  shows "sample_actions small_cfg [[m0], [m1]] [[2], [2]] (randn example_draws it b) = [[[1], [1]], [[1], [1]]]"
  using assms by (simp add: sample_actions_def small_cfg_simps upt2 example_draws_def clamp_def)

lemma small_step:
  assumes "- 1 \<le> m0" "- 1 \<le> m1"
  shows "mppi_step small_agent plan_model example_draws None z b it
     \<lparr>actions = [[[1/2]], [[1/2]]], mean = [[m0], [m1]], std = [[2], [2]], score = [], elite_actions = []\<rparr>
   = Some small_state"
  apply (simp add: mppi_step_def small_cfg_simps small_sample [OF assms] upt2 small_values small_topk small_score)
  apply (simp add: small_update_mean [unfolded small_elite_def] small_state_def small_elite_def Let_def)
  done


lemma small_init:
  "plan_init small_agent plan_model example_draws None t0 b z prev_row
     = Some \<lparr>actions = [[[1/2]], [[1/2]]], mean = init_mean small_cfg t0 prev_row, std = [[2], [2]],
             score = [], elite_actions = []\<rparr>"
  by (simp add: plan_init_def small_cfg_simps small_pi numeral_2_eq_2)

lemma small_init_mean_False: "init_mean small_cfg False [[x], [y]] = [[y], [0]]"
  by (simp add: init_mean_def zeros_def small_cfg_simps numeral_2_eq_2)


lemma small_refine_False:
  assumes "- 1 \<le> y"
  shows "plan_refine small_agent plan_model example_draws None False b z [[x], [y]] = Some small_state"
  using small_step [of y 0 z b 0] assms
  by (simp add: plan_refine_def small_init small_init_mean_False small_cfg_simps)


lemma small_select: "select_action small_cfg example_draws eval_mode b small_state = Some [1]"
  by (cases eval_mode)
    (simp_all add: select_action_def small_cfg_simps example_draws_def small_state_def small_elite_def
       upt2 clamp_def Let_def)

lemma small_state_simps:
  "mean small_state = small_mean" "score small_state = [1 / 2, 1 / 2]"
  "elite_actions small_state = small_elite"
  "actions small_state = [[[1 / 2], [1], [1]], [[1 / 2], [1], [1]]]"
  by (simp_all add: small_state_def)

lemma small_row_False:
  assumes "- 1 \<le> y"
  shows "plan_row small_agent plan_model example_draws None False eval_mode b z [[x], [y]] = Some ([1], small_mean)"
  by (simp add: plan_row_def small_refine_False [OF assms] small_select small_cfg_simps small_state_simps)


lemma small_prev: "prev_mean small_agent = [[[1 / 4], [1 / 2]], [[0], [- 1 / 2]]]"
  by (simp add: small_agent_def)

lemma small_shape: "buffer_shape (cfg small_agent) (prev_mean small_agent)"
  by (simp add: buffer_shape_def small_prev small_cfg_simps)

lemma small_rows:
  "length (prev_mean small_agent) = 2"
  "prev_mean small_agent ! 0 = [[1 / 4], [1 / 2]]"
  "prev_mean small_agent ! Suc 0 = [[0], [- 1 / 2]]"
  by (simp_all add: small_prev)

lemma small_plan_False:
  "plan small_agent plan_model example_draws [1, 3] False eval_mode None
     = Some ([[1], [1]], small_agent\<lparr>prev_mean := [small_mean, small_mean]\<rparr>)"
  by (simp add: plan_def upt2 small_shape expand_def small_rows small_row_False)



section \<open>The multi-task planning problem, evaluated\<close>















section \<open>Properties of one iteration of the planner\<close>

lemma small_start:
  "mppi_step small_agent plan_model example_draws None 1 0 0
     \<lparr>actions = [[[1 / 2]], [[1 / 2]]], mean = [[1 / 2], [0]], std = [[2], [2]],
      score = [], elite_actions = []\<rparr> = Some small_state"
  by (rule small_step) simp_all

lemma float32_max_pos: "0 < float32_max"
  by (simp add: float32_max_def)

lemma nan_to_num_cases:
  "nan_to_num 0 x = (case x of Fin r \<Rightarrow> r | PInf \<Rightarrow> float32_max | NInf \<Rightarrow> - float32_max | NaN \<Rightarrow> 0)"
  by (cases x) simp_all




text \<open>
  Claim C3, amended. In every iteration of the loop of \<^verbatim>\<open>_plan\<close> the values passed to the
  top-k selection are, candidate by candidate, the finite estimate itself, 0 in place of a
  NaN estimate, the largest finite single-precision value in place of positive infinity and
  its negative in place of negative infinity.
\<close>

theorem values_entering_selection:
  assumes "mppi_step ag wm dr task z b it st = Some st'"
  shows "\<exists>vs idxs.
           candidate_values ag wm (boot_eps dr it b) z (actions st') task = Some vs
         \<and> topk (num_elites (cfg ag)) vs = Some idxs
         \<and> length vs = num_samples (cfg ag)
         \<and> (\<forall>j<num_samples (cfg ag). \<exists>x.
               estimate_value ag wm (boot_eps dr it b j) z (candidate (cfg ag) (actions st') j) task
                 = Some x
               \<and> vs ! j = (case x of Fin r \<Rightarrow> r | PInf \<Rightarrow> float32_max
                                    | NInf \<Rightarrow> - float32_max | NaN \<Rightarrow> 0))"
proof -
  from mppi_step_result [OF assms] obtain vs idxs where
    vs: "candidate_values ag wm (boot_eps dr it b) z (actions st') task = Some vs"
    and idxs: "topk (num_elites (cfg ag)) vs = Some idxs"
    by blast
  from candidate_values_nth [OF vs] have
    len: "length vs = num_samples (cfg ag)"
    and each: "\<forall>j<num_samples (cfg ag). \<exists>x.
             estimate_value ag wm (boot_eps dr it b j) z (candidate (cfg ag) (actions st') j) task = Some x
             \<and> vs ! j = nan_to_num 0 x"
    by simp_all
  from each have "\<forall>j<num_samples (cfg ag). \<exists>x.
             estimate_value ag wm (boot_eps dr it b j) z (candidate (cfg ag) (actions st') j) task = Some x
             \<and> vs ! j = (case x of Fin r \<Rightarrow> r | PInf \<Rightarrow> float32_max
                                  | NInf \<Rightarrow> - float32_max | NaN \<Rightarrow> 0)"
    by (simp add: nan_to_num_cases)
  with vs idxs len show ?thesis by blast
qed

text \<open>Claim C3, amended: the iteration of the small problem.\<close>

theorem values_entering_selection_witness:
  "mppi_step small_agent plan_model example_draws None 1 0 0
     \<lparr>actions = [[[1 / 2]], [[1 / 2]]], mean = [[1 / 2], [0]], std = [[2], [2]],
      score = [], elite_actions = []\<rparr> = Some small_state
   \<and> (\<exists>vs idxs.
         candidate_values small_agent plan_model (boot_eps example_draws 0 0) 1
            (actions small_state) None = Some vs
       \<and> topk 2 vs = Some idxs \<and> length vs = 3)"
proof -
  from values_entering_selection [OF small_start]
  have "\<exists>vs idxs.
         candidate_values small_agent plan_model (boot_eps example_draws 0 0) 1
            (actions small_state) None = Some vs
       \<and> topk 2 vs = Some idxs \<and> length vs = 3"
    by (simp add: small_cfg_simps) blast
  with small_start show ?thesis by blast
qed

lemma degenerate_estimate:
  "estimate_value small_agent degenerate_model e z [[x], [y]] None = Some PInf"
  by (simp add: estimate_value_def small_cfg_simps small_discount numeral_2_eq_2 plan_model_def
      degenerate_model_def zero_fval_def)

text \<open>
  Claim C3 fails for infinities: with a critic that returns positive infinity every estimate
  is infinite, and the value that enters the selection is the largest finite
  single-precision value, not 0.
\<close>

theorem infinite_estimate_not_zeroed:
  "estimate_value small_agent degenerate_model () 1 [[1], [1]] None = Some PInf
   \<and> candidate_values small_agent degenerate_model (boot_eps example_draws 0 0) 1
        [[[1 / 2], [1], [1]], [[1 / 2], [1], [1]]] None
       = Some [float32_max, float32_max, float32_max]
   \<and> float32_max \<noteq> 0"
  using float32_max_pos
  by (simp add: candidate_values_def small_cfg_simps upt2 upt3 candidate_def degenerate_estimate)

section \<open>Properties of the planner and of acting\<close>



lemma plan_SomeD:
  assumes "plan ag wm dr obs t0 eval_mode task = Some (a, ag')"
  shows "\<exists>prev rows.
           buffer_shape (cfg ag) (prev_mean ag)
         \<and> (if t0 then prev = replicate (length obs) [] else expand (length obs) (prev_mean ag) = Some prev)
         \<and> those (map (\<lambda>b. plan_row ag wm dr task t0 eval_mode b
                                (map (\<lambda>ob. encode wm ob task) obs ! b) (prev ! b))
                        [0..<length obs]) = Some rows
         \<and> obs \<noteq> []
         \<and> expand (length (prev_mean ag)) (map snd rows) = Some (prev_mean ag')
         \<and> a = map fst rows"
  using assms
  by (auto simp: plan_def bind_eq_Some_conv Let_def split: if_splits)

lemma plan_rows:
  assumes "plan ag wm dr obs t0 eval_mode task = Some (a, ag')"
  shows "\<exists>prev rows.
           buffer_shape (cfg ag) (prev_mean ag)
         \<and> (if t0 then prev = replicate (length obs) [] else expand (length obs) (prev_mean ag) = Some prev)
         \<and> length rows = length obs
         \<and> (\<forall>b<length obs. plan_row ag wm dr task t0 eval_mode b (encode wm (obs ! b) task) (prev ! b)
                               = Some (rows ! b))
         \<and> obs \<noteq> []
         \<and> expand (length (prev_mean ag)) (map snd rows) = Some (prev_mean ag')
         \<and> a = map fst rows"
proof -
  from plan_SomeD [OF assms] obtain prev rows where
    sh: "buffer_shape (cfg ag) (prev_mean ag)"
    and pv: "if t0 then prev = replicate (length obs) [] else expand (length obs) (prev_mean ag) = Some prev"
    and th: "those (map (\<lambda>b. plan_row ag wm dr task t0 eval_mode b
                                (map (\<lambda>ob. encode wm ob task) obs ! b) (prev ! b))
                        [0..<length obs]) = Some rows"
    and ne: "obs \<noteq> []"
    and ex: "expand (length (prev_mean ag)) (map snd rows) = Some (prev_mean ag')"
    and a: "a = map fst rows"
    by blast
  from those_upt_Some [OF th] have len: "length rows = length obs"
    and each: "\<forall>b<length obs. plan_row ag wm dr task t0 eval_mode b (encode wm (obs ! b) task) (prev ! b)
                               = Some (rows ! b)"
    by simp_all
  from sh pv len each ne ex a show ?thesis by blast
qed









text \<open>
  Claim C10. Without planning, \<^verbatim>\<open>act\<close> on a non-empty batch returns the policy action of
  the first row only, a single action of \<^verbatim>\<open>action_dim\<close> components (the mean in evaluation
  mode, the sample otherwise), and leaves the agent unchanged; with planning, a result of
  \<^verbatim>\<open>act\<close> is the batch returned by \<^verbatim>\<open>_plan\<close>, one action per observation row.
\<close>

theorem act_batching:
  "(\<not> mpc (cfg ag) \<and> obs \<noteq> [] \<longrightarrow>
      act ag wm dr obs t0 eval_mode task
        = Some (Single ((if eval_mode then pi_mean else pi_sample)
                          (cfg ag) wm (encode wm (obs ! 0) task) task (act_eps dr 0)), ag)
      \<and> length ((if eval_mode then pi_mean else pi_sample)
                  (cfg ag) wm (encode wm (obs ! 0) task) task (act_eps dr 0)) = action_dim (cfg ag))
 \<and> (mpc (cfg ag) \<and> act ag wm dr obs t0 eval_mode task = Some (r, ag') \<longrightarrow>
      (\<exists>rows. r = Batch rows \<and> length rows = length obs
             \<and> plan ag wm dr obs t0 eval_mode task = Some (rows, ag')))"
proof -
  have a: "act ag wm dr obs t0 eval_mode task
        = Some (Single ((if eval_mode then pi_mean else pi_sample)
                          (cfg ag) wm (encode wm (obs ! 0) task) task (act_eps dr 0)), ag)
      \<and> length ((if eval_mode then pi_mean else pi_sample)
                  (cfg ag) wm (encode wm (obs ! 0) task) task (act_eps dr 0)) = action_dim (cfg ag)"
    if "\<not> mpc (cfg ag) \<and> obs \<noteq> []"
  proof -
    from that have ne: "0 < length obs" and np: "\<not> mpc (cfg ag)" by simp_all
    have "map (\<lambda>b. (if eval_mode then pi_mean else pi_sample) (cfg ag) wm
                     (map (\<lambda>ob. encode wm ob task) obs ! b) task (act_eps dr b)) [0..<length obs] ! 0
          = (if eval_mode then pi_mean else pi_sample) (cfg ag) wm (encode wm (obs ! 0) task) task (act_eps dr 0)"
      using ne by simp
    then show ?thesis
      using ne np by (simp add: act_def Let_def pi_mean_def pi_sample_def tabulate_def)
  qed
  have b: "\<exists>rows. r = Batch rows \<and> length rows = length obs
             \<and> plan ag wm dr obs t0 eval_mode task = Some (rows, ag')"
    if "mpc (cfg ag) \<and> act ag wm dr obs t0 eval_mode task = Some (r, ag')"
  proof -
    from that obtain rows where p: "plan ag wm dr obs t0 eval_mode task = Some (rows, ag')"
      and r: "r = Batch rows"
      by (auto simp: act_def bind_eq_Some_conv)
    from plan_rows [OF p] have "length rows = length obs" by auto
    with p r show ?thesis by blast
  qed
  from a b show ?thesis by blast
qed

lemma policy_cfg_simps: "mpc (cfg policy_agent) = False" "action_dim (cfg policy_agent) = 1"
  "mpc (cfg small_agent) = True"
  by (simp_all add: policy_agent_def small_agent_def small_cfg_def)

text \<open>Claim C10: three observations without planning, two with planning.\<close>

theorem act_batching_witness:
  "act policy_agent plan_model example_draws [1, 3, 5] False False None
     = Some (Single [1 / 2], policy_agent)
   \<and> act small_agent plan_model example_draws [1, 3] False False None
     = Some (Batch [[1], [1]], small_agent\<lparr>prev_mean := [small_mean, small_mean]\<rparr>)
   \<and> length [[1], [1 :: real]] = length [1, 3 :: real]"
proof -
  have s: "pi_sample (cfg policy_agent) plan_model z None e = [1 / 2]" for z e
    by (simp add: pi_sample_def tabulate_def policy_cfg_simps plan_model_def)
  have a: "act policy_agent plan_model example_draws [1, 3, 5] False False None
     = Some (Single [1 / 2], policy_agent)"
    using act_batching [of policy_agent "[1, 3, 5]" plan_model example_draws False False None]
    by (simp add: policy_cfg_simps s)
  have b: "act small_agent plan_model example_draws [1, 3] False False None
     = Some (Batch [[1], [1]], small_agent\<lparr>prev_mean := [small_mean, small_mean]\<rparr>)"
    by (simp add: act_def policy_cfg_simps small_plan_False)
  from act_batching [of small_agent "[1, 3]" plan_model example_draws False False None] b a
  show ?thesis by simp
qed

end
